theory Spec2Isabelle
  imports Complex_Main "HOL-Library.AList" "HOL-Library.Product_Lexorder" "HOL-Library.Multiset"
begin

section \<open>Data model of the block graph\<close>

text \<open>
  The result processor (\<^verbatim>\<open>lambda.py\<close>) works on Textract blocks, which are Python
  dictionaries. A block is modelled as a record; a key the source reads with
  \<^verbatim>\<open>.get\<close> or tests with \<^verbatim>\<open>in\<close> is an optional field, and a key it reads
  with \<^verbatim>\<open>block['K']\<close> is optional too where Textract may leave it out, so that the
  \<^verbatim>\<open>KeyError\<close> of the source is a value of the model. \<^verbatim>\<open>Id\<close>,
  \<^verbatim>\<open>BlockType\<close> and the \<^verbatim>\<open>Type\<close> and \<^verbatim>\<open>Ids\<close> of a relationship are always
  present. Python numbers (fractional page coordinates, confidences) are
  modelled as exact rationals: no rounding error, no NaN.
\<close>

datatype block_type =
  PAGE | LINE | WORD | TABLE | CELL | MERGED_CELL | KEY_VALUE_SET | SELECTION_ELEMENT
  | OTHER_BLOCK

datatype rel_type = CHILD | VALUE | OTHER_REL

record relationship =
  Type :: rel_type
  Ids :: "string list"

text \<open>A bounding-box entry is \<open>None\<close> when the key is missing or its value is not a number.\<close>

record bounding_box =
  Left :: "rat option"
  Top :: "rat option"
  Width :: "rat option"
  Height :: "rat option"

record geometry =
  BoundingBox :: "bounding_box option"

record block =
  BlockId :: string
  BlockType :: block_type
  Text :: "string option"
  Confidence :: "rat option"
  Page :: "int option"
  Geometry :: "geometry option"
  Relationships :: "relationship list"
  RowIndex :: "int option"
  ColumnIndex :: "int option"
  RowSpan :: "int option"
  ColumnSpan :: "int option"
  EntityTypes :: "string list"
  SelectionStatus :: "string option"

type_synonym blocks_map = "string \<Rightarrow> block option"

datatype py_error = KeyError string | RecursionError

section \<open>Python string and number helpers\<close>

definition is_space :: "char \<Rightarrow> bool" where
  "is_space c \<longleftrightarrow> c \<in> set [CHR '' '', CHR 0x09, CHR 0x0A, CHR 0x0B, CHR 0x0C, CHR 0x0D,
     CHR 0x1C, CHR 0x1D, CHR 0x1E, CHR 0x1F]"

text \<open>
  \<^verbatim>\<open>s.strip()\<close>, for the white space of ASCII: a string is a list of bytes here.
\<close>

definition strip :: "string \<Rightarrow> string" where
  "strip s = rev (dropWhile is_space (rev (dropWhile is_space s)))"

text \<open>\<^verbatim>\<open>sep.join(parts)\<close>\<close>

fun join :: "string \<Rightarrow> string list \<Rightarrow> string" where
  "join sep [] = []"
| "join sep [x] = x"
| "join sep (x # y # ys) = x @ sep @ join sep (y # ys)"

text \<open>\<^verbatim>\<open>min(xs)\<close> and \<^verbatim>\<open>max(xs)\<close> of a non-empty list, as left-to-right scans.\<close>

fun py_min :: "rat list \<Rightarrow> rat" where
  "py_min [] = 0"
| "py_min (x # xs) = fold (\<lambda>y m. if y < m then y else m) xs x"

fun py_max :: "rat list \<Rightarrow> rat" where
  "py_max [] = 0"
| "py_max (x # xs) = fold (\<lambda>y m. if m < y then y else m) xs x"

text \<open>
  \<^verbatim>\<open>round(x, 2)\<close>: to the nearest multiple of 1/100, a tie going to the even one.
\<close>

definition round_half_even :: "rat \<Rightarrow> int" where
  "round_half_even y =
     (let f = \<lfloor>y\<rfloor>; d = y - of_int f
      in if d < 1 / 2 then f else if 1 / 2 < d then f + 1 else if even f then f else f + 1)"

definition round2 :: "rat \<Rightarrow> rat" where
  "round2 x = of_int (round_half_even (x * 100)) / 100"

text \<open>\<^verbatim>\<open>str(n)\<close> for an integer.\<close>

fun str_nat :: "nat \<Rightarrow> string" where
  "str_nat n =
     (if n < 10 then [char_of (48 + n)] else str_nat (n div 10) @ [char_of (48 + n mod 10)])"

declare str_nat.simps [simp del]

definition str_int :: "int \<Rightarrow> string" where
  "str_int i = (if i < 0 then CHR ''-'' # str_nat (nat (- i)) else str_nat (nat i))"

section \<open>Text/Confidence Resolver\<close>

text \<open>
  \<^verbatim>\<open>get_text_and_confidence_from_block\<close>. The ids of all \<^verbatim>\<open>CHILD\<close> relationships,
  in the order in which the nested iteration visits them:
\<close>

definition child_ids :: "block \<Rightarrow> string list" where
  "child_ids b = concat (map Ids (filter (\<lambda>r. Type r = CHILD) (Relationships b)))"

definition get_confidence :: "block \<Rightarrow> rat" where
  "get_confidence b = (case Confidence b of Some c \<Rightarrow> c | None \<Rightarrow> 0)"

text \<open>
  The loop body over one child id, with the two accumulators \<^verbatim>\<open>text_parts\<close> and
  \<^verbatim>\<open>confidences\<close>; \<^verbatim>\<open>child_block['Text']\<close> and
  \<^verbatim>\<open>child_block['SelectionStatus']\<close> raise when the key is missing.
\<close>

fun collect_parts ::
  "blocks_map \<Rightarrow> string list \<Rightarrow> string list \<times> rat list \<Rightarrow> py_error + string list \<times> rat list"
where
  "collect_parts bm [] acc = Inr acc"
| "collect_parts bm (cid # cids) (text_parts, confidences) =
     (case bm cid of
        None \<Rightarrow> collect_parts bm cids (text_parts, confidences)
      | Some child_block \<Rightarrow>
          if BlockType child_block = WORD then
            (case Text child_block of
               None \<Rightarrow> Inl (KeyError ''Text'')
             | Some t \<Rightarrow>
                 collect_parts bm cids
                   (text_parts @ [t], confidences @ [get_confidence child_block]))
          else if BlockType child_block = SELECTION_ELEMENT then
            (case SelectionStatus child_block of
               None \<Rightarrow> Inl (KeyError ''SelectionStatus'')
             | Some s \<Rightarrow>
                 collect_parts bm cids
                   (text_parts @ [if s = ''SELECTED'' then ''[X]'' else ''[ ]''],
                    confidences @ [get_confidence child_block]))
          else collect_parts bm cids (text_parts, confidences))"

definition get_text_and_confidence_from_block ::
  "block \<Rightarrow> blocks_map \<Rightarrow> py_error + string \<times> rat"
where
  "get_text_and_confidence_from_block b bm =
     (case collect_parts bm (child_ids b) ([], []) of
        Inl e \<Rightarrow> Inl e
      | Inr (text_parts, confidences) \<Rightarrow>
          let full_text = strip (join '' '' text_parts);
              (full_text, confidences) =
                (case Text b of
                   Some own \<Rightarrow>
                     if full_text = [] then (own, confidences @ [get_confidence b])
                     else (full_text, confidences)
                 | None \<Rightarrow> (full_text, confidences));
              aggregated_confidence = (if confidences \<noteq> [] then py_min confidences else 0)
          in Inr (strip full_text, aggregated_confidence))"

section \<open>Spatial Table Reconstructor\<close>

text \<open>
  \<^verbatim>\<open>reconstruct_table_structure_spatially\<close>. The nested helper
  \<^verbatim>\<open>extract_words_from_cell\<close> calls itself on every \<^verbatim>\<open>LINE\<close> child; the first
  argument is the number of stack frames Python has left, and running out of them is
  the \<^verbatim>\<open>RecursionError\<close> that the enclosing \<^verbatim>\<open>try\<close> catches.
\<close>

fun concat_results :: "(py_error + 'a list) list \<Rightarrow> py_error + 'a list" where
  "concat_results [] = Inr []"
| "concat_results (Inl e # rs) = Inl e"
| "concat_results (Inr xs # rs) =
     (case concat_results rs of Inl e \<Rightarrow> Inl e | Inr ys \<Rightarrow> Inr (xs @ ys))"

fun extract_words_from_cell :: "nat \<Rightarrow> blocks_map \<Rightarrow> block \<Rightarrow> py_error + block list" where
  "extract_words_from_cell 0 bm cell_block = Inl RecursionError"
| "extract_words_from_cell (Suc frames) bm cell_block =
     concat_results
       (map (\<lambda>child_id.
               case bm child_id of
                 None \<Rightarrow> Inr []
               | Some child_block \<Rightarrow>
                   if BlockType child_block = WORD then Inr [child_block]
                   else if BlockType child_block = LINE
                   then extract_words_from_cell frames bm child_block
                   else Inr [])
          (child_ids cell_block))"

text \<open>
  The words of all \<^verbatim>\<open>CELL\<close> children of the table. The source also tags each word
  with its \<^verbatim>\<open>parent_cell\<close>; nothing reads the tag afterwards, so it is left out.
\<close>

definition table_word_blocks :: "nat \<Rightarrow> blocks_map \<Rightarrow> block \<Rightarrow> py_error + block list" where
  "table_word_blocks frames bm table_block =
     concat_results
       (map (\<lambda>cell_id.
               case bm cell_id of
                 None \<Rightarrow> Inr []
               | Some cell_block \<Rightarrow>
                   if BlockType cell_block = CELL
                   then extract_words_from_cell frames bm cell_block
                   else Inr [])
          (child_ids table_block))"

record spatial_word =
  w_id :: string
  w_text :: string
  w_confidence :: rat
  w_left :: rat
  w_top :: rat
  w_width :: rat
  w_height :: rat
  w_right :: rat
  w_bottom :: rat
  w_center_x :: rat
  w_center_y :: rat

text \<open>\<^verbatim>\<open>word_block.get('Text', '')\<close>\<close>

definition get_text :: "block \<Rightarrow> string" where
  "get_text b = (case Text b of Some s \<Rightarrow> s | None \<Rightarrow> [])"

definition to_spatial_word :: "block \<Rightarrow> spatial_word option" where
  "to_spatial_word word_block =
     (case Geometry word_block of
        None \<Rightarrow> None
      | Some g \<Rightarrow>
          (case BoundingBox g of
             None \<Rightarrow> None
           | Some bbox \<Rightarrow>
               (case (Left bbox, Top bbox, Width bbox, Height bbox) of
                  (Some l, Some t, Some w, Some h) \<Rightarrow>
                    Some \<lparr>w_id = BlockId word_block,
                          w_text = get_text word_block,
                          w_confidence = get_confidence word_block,
                          w_left = l, w_top = t, w_width = w, w_height = h,
                          w_right = l + w, w_bottom = t + h,
                          w_center_x = l + w / 2, w_center_y = t + h / 2\<rparr>
                | _ \<Rightarrow> None)))"

text \<open>Greedy row clustering: \<^verbatim>\<open>rows\<close> and \<^verbatim>\<open>current_row\<close> are the loop's variables.\<close>

fun cluster_rows ::
  "rat \<Rightarrow> spatial_word list \<Rightarrow> spatial_word list list \<Rightarrow> spatial_word list
   \<Rightarrow> spatial_word list list"
where
  "cluster_rows row_tolerance [] rows current_row =
     (if current_row \<noteq> [] then rows @ [current_row] else rows)"
| "cluster_rows row_tolerance (word # ws) rows current_row =
     (if current_row = [] then cluster_rows row_tolerance ws rows [word]
      else
        let current_row_avg_y =
              sum_list (map w_center_y current_row) / of_nat (length current_row)
        in if \<bar>w_center_y word - current_row_avg_y\<bar> \<le> row_tolerance
           then cluster_rows row_tolerance ws rows (current_row @ [word])
           else cluster_rows row_tolerance ws (rows @ [current_row]) [word])"

text \<open>
  Merging one x position into \<^verbatim>\<open>column_boundaries\<close>: the first boundary within the
  tolerance is replaced by the average, otherwise the position is appended.
\<close>

fun merge_boundary :: "rat \<Rightarrow> rat \<Rightarrow> rat list \<Rightarrow> rat list" where
  "merge_boundary boundary_tolerance x_pos [] = [x_pos]"
| "merge_boundary boundary_tolerance x_pos (boundary # bs) =
     (if \<bar>x_pos - boundary\<bar> \<le> boundary_tolerance then ((boundary + x_pos) / 2) # bs
      else boundary # merge_boundary boundary_tolerance x_pos bs)"

record column_range =
  cr_start :: rat
  cr_end :: rat
  cr_center :: rat

fun make_column_ranges :: "rat list \<Rightarrow> column_range list" where
  "make_column_ranges (b1 # b2 # bs) =
     \<lparr>cr_start = b1, cr_end = b2, cr_center = (b1 + b2) / 2\<rparr> # make_column_ranges (b2 # bs)"
| "make_column_ranges bs = []"

text \<open>
  \<^verbatim>\<open>get_column_index\<close>: the first loop returns the first range that contains the
  word's centre; the second keeps \<^verbatim>\<open>closest_col\<close> and \<^verbatim>\<open>min_distance\<close>, the latter
  starting at infinity (\<open>None\<close>).
\<close>

definition in_range :: "rat \<Rightarrow> column_range \<Rightarrow> bool" where
  "in_range word_center col_range \<longleftrightarrow>
     cr_start col_range \<le> word_center \<and> word_center \<le> cr_end col_range"

definition edge_distance :: "rat \<Rightarrow> column_range \<Rightarrow> rat" where
  "edge_distance word_center col_range =
     min \<bar>word_center - cr_start col_range\<bar> \<bar>word_center - cr_end col_range\<bar>"

fun find_containing :: "rat \<Rightarrow> nat \<Rightarrow> column_range list \<Rightarrow> nat option" where
  "find_containing word_center i [] = None"
| "find_containing word_center i (col_range # rs) =
     (if in_range word_center col_range then Some i
      else find_containing word_center (Suc i) rs)"

fun find_closest :: "rat \<Rightarrow> nat \<Rightarrow> column_range list \<Rightarrow> nat \<times> rat option \<Rightarrow> nat" where
  "find_closest word_center i [] (closest_col, min_distance) = closest_col"
| "find_closest word_center i (col_range # rs) (closest_col, min_distance) =
     (let distance = edge_distance word_center col_range
      in if (case min_distance of None \<Rightarrow> True | Some m \<Rightarrow> distance < m)
         then find_closest word_center (Suc i) rs (i, Some distance)
         else find_closest word_center (Suc i) rs (closest_col, min_distance))"

definition get_column_index :: "column_range list \<Rightarrow> spatial_word \<Rightarrow> nat" where
  "get_column_index column_ranges word =
     (case find_containing (w_center_x word) 0 column_ranges of
        Some i \<Rightarrow> i
      | None \<Rightarrow> find_closest (w_center_x word) 0 column_ranges (0, None))"

text \<open>\<^verbatim>\<open>column_words\<close>, a dictionary in insertion order.\<close>

fun group_by_column ::
  "column_range list \<Rightarrow> spatial_word list \<Rightarrow> (nat \<times> spatial_word list) list
   \<Rightarrow> (nat \<times> spatial_word list) list"
where
  "group_by_column column_ranges [] column_words = column_words"
| "group_by_column column_ranges (word # ws) column_words =
     (let col_idx = get_column_index column_ranges word
      in group_by_column column_ranges ws
           (case map_of column_words col_idx of
              None \<Rightarrow> column_words @ [(col_idx, [word])]
            | Some l \<Rightarrow> AList.update col_idx (l @ [word]) column_words))"

text \<open>
  Writing each column's words into \<^verbatim>\<open>row_cells\<close> and \<^verbatim>\<open>row_confidences\<close>, under
  the source's bounds check \<^verbatim>\<open>col_idx < len(row_cells)\<close>.
\<close>

fun combine_columns ::
  "(nat \<times> spatial_word list) list \<Rightarrow> string list \<times> rat list \<Rightarrow> string list \<times> rat list"
where
  "combine_columns [] acc = acc"
| "combine_columns ((col_idx, words) # rest) (row_cells, row_confidences) =
     (if col_idx < length row_cells then
        let words = sort_key w_left words;
            combined_text = join '' '' (map w_text words);
            avg_confidence = sum_list (map w_confidence words) / of_nat (length words)
        in combine_columns rest
             (row_cells[col_idx := strip combined_text],
              row_confidences[col_idx := round2 avg_confidence])
      else combine_columns rest (row_cells, row_confidences))"

record spatial_cell =
  column_index :: nat
  sc_text :: string
  sc_confidence :: rat

record spatial_row =
  row_index :: nat
  cells :: "spatial_cell list"

record reconstruction_metadata =
  word_count :: nat
  row_tolerance :: rat
  boundary_tolerance :: rat
  avg_word_height :: rat
  doc_width :: rat

record spatial_table =
  table_id :: string
  page_number :: "int option"
  metadata :: reconstruction_metadata
  row_count :: nat
  column_count :: nat
  rows :: "spatial_row list"

definition build_row :: "column_range list \<Rightarrow> nat \<times> spatial_word list \<Rightarrow> spatial_row" where
  "build_row column_ranges = (\<lambda>(row_idx, row_words).
     let (row_cells, row_confidences) =
           combine_columns (group_by_column column_ranges row_words [])
             (replicate (length column_ranges) [], replicate (length column_ranges) 0)
     in \<lparr>row_index = row_idx + 1,
         cells = map (\<lambda>(col_idx, txt).
                        \<lparr>column_index = col_idx + 1, sc_text = txt,
                         sc_confidence = row_confidences ! col_idx\<rparr>)
                   (enumerate 0 row_cells)\<rparr>)"

text \<open>
  The stages of the body of the \<^verbatim>\<open>try\<close>, from the point where the word blocks
  are known: the adaptive row tolerance, the rows (clustered, then each sorted by its
  left edge), the distinct x positions, the adaptive boundary tolerance and the
  merged, sorted column boundaries.
\<close>

definition avg_word_height_of :: "spatial_word list \<Rightarrow> rat" where
  "avg_word_height_of spatial_words =
     sum_list (map w_height spatial_words) / of_nat (length spatial_words)"

definition row_tolerance_of :: "spatial_word list \<Rightarrow> rat" where
  "row_tolerance_of spatial_words =
     max (5 / 1000) (min (2 / 100) (avg_word_height_of spatial_words * (1 / 2)))"

definition word_rows_of :: "spatial_word list \<Rightarrow> spatial_word list list" where
  "word_rows_of spatial_words =
     map (sort_key w_left)
       (cluster_rows (row_tolerance_of spatial_words) (sort_key w_top spatial_words) [] [])"

definition unique_x_positions_of :: "spatial_word list list \<Rightarrow> rat list" where
  "unique_x_positions_of word_rows =
     sort (remdups (concat (map (\<lambda>w. [w_left w, w_right w]) (concat word_rows))))"

definition doc_width_of :: "rat list \<Rightarrow> rat" where
  "doc_width_of unique_x_positions =
     (if unique_x_positions \<noteq> []
      then py_max unique_x_positions - py_min unique_x_positions else 1)"

definition boundary_tolerance_of :: "rat list \<Rightarrow> rat" where
  "boundary_tolerance_of unique_x_positions =
     max (1 / 100) (min (3 / 100) (doc_width_of unique_x_positions * (2 / 100)))"

definition column_boundaries_of :: "rat list \<Rightarrow> rat list" where
  "column_boundaries_of unique_x_positions =
     sort (fold (merge_boundary (boundary_tolerance_of unique_x_positions))
             unique_x_positions [])"

definition reconstruct_from_words :: "block \<Rightarrow> block list \<Rightarrow> spatial_table option" where
  "reconstruct_from_words table_block word_blocks =
     (let spatial_words = List.map_filter to_spatial_word word_blocks
      in if spatial_words = [] then None
         else
           let word_rows = word_rows_of spatial_words
           in if length word_rows < 1 then None
              else
                let unique_x_positions = unique_x_positions_of word_rows;
                    column_boundaries = column_boundaries_of unique_x_positions
                in if length column_boundaries < 2 then None
                   else
                     let column_ranges = make_column_ranges column_boundaries
                     in Some \<lparr>table_id = BlockId table_block,
                              page_number = Page table_block,
                              metadata =
                                \<lparr>word_count = length spatial_words,
                                 row_tolerance = row_tolerance_of spatial_words,
                                 boundary_tolerance = boundary_tolerance_of unique_x_positions,
                                 avg_word_height = avg_word_height_of spatial_words,
                                 doc_width = doc_width_of unique_x_positions\<rparr>,
                              row_count = length word_rows,
                              column_count = length column_ranges,
                              rows = map (build_row column_ranges) (enumerate 0 word_rows)\<rparr>)"

definition spatial_try :: "nat \<Rightarrow> block \<Rightarrow> blocks_map \<Rightarrow> py_error + spatial_table option" where
  "spatial_try frames table_block bm =
     (case table_word_blocks frames bm table_block of
        Inl e \<Rightarrow> Inl e
      | Inr word_blocks \<Rightarrow>
          Inr (if word_blocks = [] then None
               else reconstruct_from_words table_block word_blocks))"

text \<open>\<^verbatim>\<open>except Exception\<close>: whatever the body raises, the result is \<^verbatim>\<open>None\<close>.\<close>

definition reconstruct_table_structure_spatially ::
  "nat \<Rightarrow> block \<Rightarrow> blocks_map \<Rightarrow> spatial_table option"
where
  "reconstruct_table_structure_spatially frames table_block bm =
     (case spatial_try frames table_block bm of Inl e \<Rightarrow> None | Inr r \<Rightarrow> r)"

section \<open>Structural Table Builder and the tabular artifact\<close>

text \<open>
  \<^verbatim>\<open>parse_tables_to_csv_data\<close>. \<^verbatim>\<open>cell_blocks_in_table\<close>: the \<^verbatim>\<open>CELL\<close>
  children of the table, and the \<^verbatim>\<open>CELL\<close> children of its \<^verbatim>\<open>MERGED_CELL\<close>
  children.
\<close>

definition cell_blocks_in_table :: "block \<Rightarrow> blocks_map \<Rightarrow> block list" where
  "cell_blocks_in_table table bm =
     concat
       (map (\<lambda>G_id.
               case bm G_id of
                 None \<Rightarrow> []
               | Some G_block \<Rightarrow>
                   if BlockType G_block = CELL then [G_block]
                   else if BlockType G_block = MERGED_CELL then
                     List.map_filter
                       (\<lambda>m_cell_id.
                          case bm m_cell_id of
                            None \<Rightarrow> None
                          | Some m_cell \<Rightarrow> if BlockType m_cell = CELL then Some m_cell else None)
                       (child_ids G_block)
                   else [])
          (child_ids table))"

text \<open>
  \<^verbatim>\<open>table_cells_map\<close> is a dictionary from \<^verbatim>\<open>(row, col)\<close> to text, kept as an
  association list in insertion order. One step of the nested iteration over offsets:
\<close>

type_synonym cells_map = "((int \<times> int) \<times> string) list"

definition write_position :: "string \<Rightarrow> int \<Rightarrow> int \<Rightarrow> nat \<times> nat \<Rightarrow> cells_map \<Rightarrow> cells_map" where
  "write_position cell_text row_idx col_idx = (\<lambda>(r_offset, c_offset) table_cells_map.
     let current = (row_idx + int r_offset, col_idx + int c_offset)
     in if r_offset = 0 \<and> c_offset = 0 then AList.update current cell_text table_cells_map
        else AList.update current
               (case map_of table_cells_map current of Some t \<Rightarrow> t | None \<Rightarrow> [])
               table_cells_map)"

definition get_span :: "int option \<Rightarrow> int" where
  "get_span s = (case s of Some n \<Rightarrow> n | None \<Rightarrow> 1)"

text \<open>
  The loop over the cell blocks, with \<^verbatim>\<open>table_cells_map\<close>, \<^verbatim>\<open>max_row\<close> and
  \<^verbatim>\<open>max_col\<close>; \<^verbatim>\<open>cell_block['RowIndex']\<close> and \<^verbatim>\<open>cell_block['ColumnIndex']\<close>
  raise when the key is missing.
\<close>

fun fill_cells ::
  "blocks_map \<Rightarrow> block list \<Rightarrow> cells_map \<times> int \<times> int \<Rightarrow> py_error + cells_map \<times> int \<times> int"
where
  "fill_cells bm [] st = Inr st"
| "fill_cells bm (cell_block # rest) (table_cells_map, max_row, max_col) =
     (case RowIndex cell_block of
        None \<Rightarrow> Inl (KeyError ''RowIndex'')
      | Some row_idx \<Rightarrow>
          (case ColumnIndex cell_block of
             None \<Rightarrow> Inl (KeyError ''ColumnIndex'')
           | Some col_idx \<Rightarrow>
               let row_span = get_span (RowSpan cell_block);
                   col_span = get_span (ColumnSpan cell_block)
               in (case get_text_and_confidence_from_block cell_block bm of
                     Inl e \<Rightarrow> Inl e
                   | Inr (cell_text, _) \<Rightarrow>
                       fill_cells bm rest
                         (fold (write_position cell_text row_idx col_idx)
                            (List.product [0..<nat row_span] [0..<nat col_span])
                            table_cells_map,
                          max max_row (row_idx + row_span - 1),
                          max max_col (col_idx + col_span - 1)))))"

definition grid_rows :: "cells_map \<Rightarrow> int \<Rightarrow> int \<Rightarrow> string list list" where
  "grid_rows table_cells_map max_row max_col =
     map (\<lambda>r. map (\<lambda>c. case map_of table_cells_map (r, c) of Some t \<Rightarrow> t | None \<Rightarrow> [])
                 [1..max_col])
       [1..max_row]"

text \<open>
  The structural fallback of one table: \<open>None\<close> where the source skips the table with
  \<^verbatim>\<open>continue\<close>.
\<close>

definition structural_rows :: "block \<Rightarrow> blocks_map \<Rightarrow> py_error + string list list option" where
  "structural_rows table bm =
     (let cell_blocks = cell_blocks_in_table table bm
      in if cell_blocks = [] then Inr None
         else
           (case fill_cells bm cell_blocks ([], 0, 0) of
              Inl e \<Rightarrow> Inl e
            | Inr (table_cells_map, max_row, max_col) \<Rightarrow>
                if table_cells_map = [] then Inr None
                else Inr (Some (grid_rows table_cells_map max_row max_col))))"

definition table_label :: "nat \<Rightarrow> block \<Rightarrow> string" where
  "table_label table_num table =
     ''--- Table '' @ str_nat (table_num + 1) @ '' (Page ''
       @ (case Page table of Some p \<Rightarrow> str_int p | None \<Rightarrow> ''Unknown'') @ '') ---''"

definition spatial_csv_rows :: "spatial_table \<Rightarrow> string list list" where
  "spatial_csv_rows spatial_table = map (\<lambda>spatial_row. map sc_text (cells spatial_row)) (rows spatial_table)"

text \<open>The loop over \<^verbatim>\<open>enumerate(tables)\<close>, with \<^verbatim>\<open>all_csv_rows\<close>.\<close>

fun csv_tables ::
  "nat \<Rightarrow> blocks_map \<Rightarrow> (nat \<times> block) list \<Rightarrow> string list list \<Rightarrow> py_error + string list list"
where
  "csv_tables frames bm [] all_csv_rows = Inr all_csv_rows"
| "csv_tables frames bm ((table_num, table) # rest) all_csv_rows =
     (let all_csv_rows =
            (if all_csv_rows \<noteq> [] then all_csv_rows @ [[], [table_label table_num table]]
             else all_csv_rows)
      in case reconstruct_table_structure_spatially frames table bm of
           Some spatial_table \<Rightarrow>
             csv_tables frames bm rest (all_csv_rows @ spatial_csv_rows spatial_table)
         | None \<Rightarrow>
             (case structural_rows table bm of
                Inl e \<Rightarrow> Inl e
              | Inr None \<Rightarrow> csv_tables frames bm rest all_csv_rows
              | Inr (Some current_table_rows) \<Rightarrow>
                  csv_tables frames bm rest (all_csv_rows @ current_table_rows)))"

fun line_rows :: "blocks_map \<Rightarrow> block list \<Rightarrow> string list list \<Rightarrow> py_error + string list list" where
  "line_rows bm [] all_csv_rows = Inr all_csv_rows"
| "line_rows bm (line_block # rest) all_csv_rows =
     (case get_text_and_confidence_from_block line_block bm of
        Inl e \<Rightarrow> Inl e
      | Inr (txt, _) \<Rightarrow> line_rows bm rest (all_csv_rows @ [[txt]]))"

definition parse_tables_to_csv_data ::
  "nat \<Rightarrow> block list \<Rightarrow> blocks_map \<Rightarrow> py_error + string list list"
where
  "parse_tables_to_csv_data frames blocks bm =
     (let tables = filter (\<lambda>b. BlockType b = TABLE) blocks
      in if tables = [] then
           (let lines = filter (\<lambda>b. BlockType b = LINE) blocks
            in if lines \<noteq> []
               then line_rows bm lines [[''Detected Lines (No Table Structure Found)'']]
               else Inr [])
         else csv_tables frames bm (enumerate 0 tables) [])"

section \<open>The structured record\<close>

text \<open>
  \<^verbatim>\<open>parse_blocks_to_structured_json\<close> builds nested dictionaries and lists that are
  serialised as JSON. A dictionary is a \<open>JObj\<close> with its keys in insertion order; a
  block's \<^verbatim>\<open>Geometry\<close> is passed through as it is.
\<close>

datatype json =
  JNull | JBool bool | JInt int | JNum rat | JStr string | JGeometry geometry
  | JArr "json list" | JObj "(string \<times> json) list"

definition opt_int_json :: "int option \<Rightarrow> json" where
  "opt_int_json v = (case v of Some i \<Rightarrow> JInt i | None \<Rightarrow> JNull)"

definition opt_num_json :: "rat option \<Rightarrow> json" where
  "opt_num_json v = (case v of Some x \<Rightarrow> JNum x | None \<Rightarrow> JNull)"

definition opt_geometry_json :: "geometry option \<Rightarrow> json" where
  "opt_geometry_json v = (case v of Some g \<Rightarrow> JGeometry g | None \<Rightarrow> JNull)"

text \<open>\<^verbatim>\<open>obj[key]\<close> for a key that holds a list, and for one that holds an integer.\<close>

definition json_list_field :: "string \<Rightarrow> json \<Rightarrow> json list" where
  "json_list_field k j =
     (case j of JObj kvs \<Rightarrow> (case map_of kvs k of Some (JArr xs) \<Rightarrow> xs | _ \<Rightarrow> []) | _ \<Rightarrow> [])"

definition json_int_field :: "string \<Rightarrow> json \<Rightarrow> int" where
  "json_int_field k j =
     (case j of JObj kvs \<Rightarrow> (case map_of kvs k of Some (JInt i) \<Rightarrow> i | _ \<Rightarrow> 0) | _ \<Rightarrow> 0)"

subsection \<open>A spatially reconstructed table\<close>

definition spatial_cell_json :: "block \<Rightarrow> spatial_row \<Rightarrow> spatial_cell \<Rightarrow> json" where
  "spatial_cell_json table_block spatial_row cell =
     JObj [(''cellId'', JStr (''spatial_'' @ BlockId table_block @ ''_''
                              @ str_nat (row_index spatial_row) @ ''_''
                              @ str_nat (column_index cell))),
           (''rowIndex'', JInt (int (row_index spatial_row))),
           (''columnIndex'', JInt (int (column_index cell))),
           (''rowSpan'', JInt 1),
           (''columnSpan'', JInt 1),
           (''text'', JStr (sc_text cell)),
           (''confidence'', JNum (sc_confidence cell)),
           (''geometry'', JNull),
           (''spatiallyReconstructed'', JBool True)]"

definition spatial_row_json :: "block \<Rightarrow> spatial_row \<Rightarrow> json" where
  "spatial_row_json table_block spatial_row =
     JObj [(''rowIndex'', JInt (int (row_index spatial_row))),
           (''cells'', JArr (map (spatial_cell_json table_block spatial_row) (cells spatial_row)))]"

definition spatial_table_json :: "block \<Rightarrow> spatial_table \<Rightarrow> json" where
  "spatial_table_json table_block spatial_table =
     JObj [(''tableId'', JStr (BlockId table_block)),
           (''pageNumber'', opt_int_json (Page table_block)),
           (''confidence'', opt_num_json (Confidence table_block)),
           (''rowCount'', JInt (int (row_count spatial_table))),
           (''columnCount'', JInt (int (column_count spatial_table))),
           (''spatiallyReconstructed'', JBool True),
           (''rows'', JArr (map (spatial_row_json table_block) (rows spatial_table)))]"

subsection \<open>A structurally built table\<close>

text \<open>
  The loop over \<^verbatim>\<open>cells_in_current_table\<close>, with \<^verbatim>\<open>parsed_cells_map\<close>,
  \<^verbatim>\<open>max_r\<close> and \<^verbatim>\<open>max_c\<close>. The text is resolved before the dictionary literal
  reads \<^verbatim>\<open>RowIndex\<close> and \<^verbatim>\<open>ColumnIndex\<close>.
\<close>

type_synonym parsed_cells = "((int \<times> int) \<times> json) list"

fun parse_cells ::
  "blocks_map \<Rightarrow> block list \<Rightarrow> parsed_cells \<times> int \<times> int \<Rightarrow> py_error + parsed_cells \<times> int \<times> int"
where
  "parse_cells bm [] st = Inr st"
| "parse_cells bm (cell_block # rest) (parsed_cells_map, max_r, max_c) =
     (case get_text_and_confidence_from_block cell_block bm of
        Inl e \<Rightarrow> Inl e
      | Inr (txt, confidence) \<Rightarrow>
          (case RowIndex cell_block of
             None \<Rightarrow> Inl (KeyError ''RowIndex'')
           | Some row_idx \<Rightarrow>
               (case ColumnIndex cell_block of
                  None \<Rightarrow> Inl (KeyError ''ColumnIndex'')
                | Some col_idx \<Rightarrow>
                    let row_span = get_span (RowSpan cell_block);
                        col_span = get_span (ColumnSpan cell_block);
                        cell_info =
                          JObj [(''cellId'', JStr (BlockId cell_block)),
                                (''rowIndex'', JInt row_idx),
                                (''columnIndex'', JInt col_idx),
                                (''rowSpan'', JInt row_span),
                                (''columnSpan'', JInt col_span),
                                (''text'', JStr txt),
                                (''confidence'', JNum (round2 confidence)),
                                (''geometry'', opt_geometry_json (Geometry cell_block)),
                                (''spatiallyReconstructed'', JBool False)]
                    in parse_cells bm rest
                         (AList.update (row_idx, col_idx) cell_info parsed_cells_map,
                          max max_r (row_idx + row_span - 1),
                          max max_c (col_idx + col_span - 1)))))"

text \<open>\<^verbatim>\<open>temp_rows_dict\<close>, filled from the sorted items of \<^verbatim>\<open>parsed_cells_map\<close>.\<close>

fun group_rows :: "parsed_cells \<Rightarrow> (int \<times> json list) list \<Rightarrow> (int \<times> json list) list" where
  "group_rows [] temp_rows_dict = temp_rows_dict"
| "group_rows (((r_idx, c_idx), cell_detail) # rest) temp_rows_dict =
     group_rows rest
       (case map_of temp_rows_dict r_idx of
          None \<Rightarrow> temp_rows_dict @ [(r_idx, [cell_detail])]
        | Some l \<Rightarrow> AList.update r_idx (l @ [cell_detail]) temp_rows_dict)"

definition structural_rows_json :: "parsed_cells \<Rightarrow> json list" where
  "structural_rows_json parsed_cells_map =
     map (\<lambda>(r_idx, row_cells).
            JObj [(''rowIndex'', JInt r_idx),
                  (''cells'', JArr (sort_key (json_int_field ''columnIndex'') row_cells))])
       (sort_key fst (group_rows (sort_key fst parsed_cells_map) []))"

definition structural_table_json :: "block \<Rightarrow> blocks_map \<Rightarrow> py_error + json option" where
  "structural_table_json table_block bm =
     (let cells_in_current_table = cell_blocks_in_table table_block bm
      in if cells_in_current_table = [] then Inr None
         else
           (case parse_cells bm cells_in_current_table ([], 0, 0) of
              Inl e \<Rightarrow> Inl e
            | Inr (parsed_cells_map, max_r, max_c) \<Rightarrow>
                Inr (Some (JObj [(''tableId'', JStr (BlockId table_block)),
                                 (''pageNumber'', opt_int_json (Page table_block)),
                                 (''confidence'', opt_num_json (Confidence table_block)),
                                 (''rowCount'', JInt max_r),
                                 (''columnCount'', JInt max_c),
                                 (''spatiallyReconstructed'', JBool False),
                                 (''rows'', JArr (structural_rows_json parsed_cells_map))]))))"

fun json_tables :: "nat \<Rightarrow> blocks_map \<Rightarrow> block list \<Rightarrow> json list \<Rightarrow> py_error + json list" where
  "json_tables frames bm [] tables = Inr tables"
| "json_tables frames bm (table_block # rest) tables =
     (case reconstruct_table_structure_spatially frames table_block bm of
        Some spatial_table \<Rightarrow>
          json_tables frames bm rest (tables @ [spatial_table_json table_block spatial_table])
      | None \<Rightarrow>
          (case structural_table_json table_block bm of
             Inl e \<Rightarrow> Inl e
           | Inr None \<Rightarrow> json_tables frames bm rest tables
           | Inr (Some table_data) \<Rightarrow> json_tables frames bm rest (tables @ [table_data])))"

subsection \<open>Key/Value Extractor\<close>

text \<open>The loop over the ids of the first \<^verbatim>\<open>VALUE\<close> relationship.\<close>

fun collect_values ::
  "blocks_map \<Rightarrow> string list \<Rightarrow> string \<times> rat \<Rightarrow> py_error + string \<times> rat"
where
  "collect_values bm [] acc = Inr acc"
| "collect_values bm (value_id # rest) (value_text, value_confidence) =
     (case bm value_id of
        None \<Rightarrow> collect_values bm rest (value_text, value_confidence)
      | Some value_block \<Rightarrow>
          (case get_text_and_confidence_from_block value_block bm of
             Inl e \<Rightarrow> Inl e
           | Inr (v_text, v_conf) \<Rightarrow>
               collect_values bm rest
                 (value_text @ v_text @ '' '', max value_confidence v_conf)))"

definition key_value_pair :: "blocks_map \<Rightarrow> block \<Rightarrow> py_error + json" where
  "key_value_pair bm key_block =
     (case get_text_and_confidence_from_block key_block bm of
        Inl e \<Rightarrow> Inl e
      | Inr (key_text, key_confidence) \<Rightarrow>
          (case (case find (\<lambda>rel. Type rel = VALUE) (Relationships key_block) of
                   None \<Rightarrow> Inr ([], 0)
                 | Some rel \<Rightarrow> collect_values bm (Ids rel) ([], 0)) of
             Inl e \<Rightarrow> Inl e
           | Inr (value_text, value_confidence) \<Rightarrow>
               Inr (JObj [(''key'', JStr (strip key_text)),
                          (''keyConfidence'', JNum (round2 key_confidence)),
                          (''value'', JStr (strip value_text)),
                          (''valueConfidence'', JNum (round2 value_confidence)),
                          (''keyGeometry'', opt_geometry_json (Geometry key_block)),
                          (''pageNumber'', opt_int_json (Page key_block))])))"

definition raw_line :: "blocks_map \<Rightarrow> block \<Rightarrow> py_error + json" where
  "raw_line bm line_block =
     (case get_text_and_confidence_from_block line_block bm of
        Inl e \<Rightarrow> Inl e
      | Inr (txt, confidence) \<Rightarrow>
          Inr (JObj [(''lineId'', JStr (BlockId line_block)),
                     (''text'', JStr txt),
                     (''confidence'', JNum (round2 confidence)),
                     (''geometry'', opt_geometry_json (Geometry line_block)),
                     (''pageNumber'', opt_int_json (Page line_block))]))"

text \<open>A loop that appends one result per item and stops at the first exception.\<close>

fun map_results :: "('a \<Rightarrow> py_error + 'b) \<Rightarrow> 'a list \<Rightarrow> py_error + 'b list" where
  "map_results f [] = Inr []"
| "map_results f (x # xs) =
     (case f x of
        Inl e \<Rightarrow> Inl e
      | Inr y \<Rightarrow> (case map_results f xs of Inl e \<Rightarrow> Inl e | Inr ys \<Rightarrow> Inr (y # ys)))"

subsection \<open>The whole record\<close>

text \<open>
  The optional consolidation of headers by a language model is an external call; it
  is a parameter, \<open>None\<close> when the service is not configured
  (\<^verbatim>\<open>AI_AVAILABLE and OPENAI_API_KEY\<close> false).
\<close>

definition parse_blocks_to_structured_json ::
  "(json \<Rightarrow> json) option \<Rightarrow> nat \<Rightarrow> block list \<Rightarrow> blocks_map \<Rightarrow> string \<Rightarrow> string
   \<Rightarrow> py_error + json"
where
  "parse_blocks_to_structured_json smart_table_restructure frames blocks bm original_s3_key job_id =
     (let pages = filter (\<lambda>b. BlockType b = PAGE) blocks;
          table_blocks = filter (\<lambda>b. BlockType b = TABLE) blocks
      in case json_tables frames bm table_blocks [] of
           Inl e \<Rightarrow> Inl e
         | Inr tables \<Rightarrow>
             let tables = (case smart_table_restructure of
                             Some restructure \<Rightarrow> map restructure tables
                           | None \<Rightarrow> tables);
                 key_value_blocks = filter (\<lambda>b. BlockType b = KEY_VALUE_SET) blocks;
                 keys = filter (\<lambda>kv. ''KEY'' \<in> set (EntityTypes kv)) key_value_blocks
             in (case map_results (key_value_pair bm) keys of
                   Inl e \<Rightarrow> Inl e
                 | Inr key_value_pairs \<Rightarrow>
                     let line_blocks = filter (\<lambda>b. BlockType b = LINE) blocks
                     in (case map_results (raw_line bm) line_blocks of
                           Inl e \<Rightarrow> Inl e
                         | Inr raw_lines \<Rightarrow>
                             Inr (JObj [(''originalS3Key'', JStr original_s3_key),
                                        (''processingJobId'', JStr job_id),
                                        (''documentMetadata'',
                                           JObj [(''pageCount'', JInt (int (length pages)))]),
                                        (''tables'', JArr tables),
                                        (''keyValuePairs'', JArr key_value_pairs),
                                        (''rawLines'', JArr raw_lines)]))))"

text \<open>The block index of \<^verbatim>\<open>lambda_handler\<close>: a later block with the same id wins.\<close>

definition blocks_map_of :: "block list \<Rightarrow> blocks_map" where
  "blocks_map_of blocks = map_of (rev (map (\<lambda>b. (BlockId b, b)) blocks))"

section \<open>The resolver in the words of the specification\<close>




section \<open>Reading the structured record\<close>

definition json_fields :: "json \<Rightarrow> (string \<times> json) list" where
  "json_fields j = (case j of JObj kvs \<Rightarrow> kvs | _ \<Rightarrow> [])"




section \<open>Reading the structural grid\<close>

text \<open>
  \<^verbatim>\<open>table_cells_map.get((r, c), "")\<close>; the cell blocks that write their text at a
  position (the top-left of a span with at least one row and one column); the text
  the resolver gives for a cell; the last row and column a cell's span reaches.
\<close>

definition text_at :: "cells_map \<Rightarrow> int \<times> int \<Rightarrow> string" where
  "text_at m p = (case map_of m p of Some t \<Rightarrow> t | None \<Rightarrow> [])"

definition top_left_at :: "int \<times> int \<Rightarrow> block \<Rightarrow> bool" where
  "top_left_at p c \<longleftrightarrow>
     RowIndex c = Some (fst p) \<and> ColumnIndex c = Some (snd p) \<and>
     0 < get_span (RowSpan c) \<and> 0 < get_span (ColumnSpan c)"

definition resolved_text :: "blocks_map \<Rightarrow> block \<Rightarrow> string" where
  "resolved_text bm c =
     (case get_text_and_confidence_from_block c bm of Inr (t, _) \<Rightarrow> t | Inl _ \<Rightarrow> [])"

definition last_row :: "block \<Rightarrow> int" where
  "last_row c = (case RowIndex c of Some r \<Rightarrow> r + get_span (RowSpan c) - 1 | None \<Rightarrow> 0)"

definition last_col :: "block \<Rightarrow> int" where
  "last_col c = (case ColumnIndex c of Some k \<Rightarrow> k + get_span (ColumnSpan c) - 1 | None \<Rightarrow> 0)"

section \<open>The spatial word of a block with a known box\<close>



section \<open>Example inputs\<close>

definition empty_block :: "string \<Rightarrow> block_type \<Rightarrow> block" where
  "empty_block i t =
     \<lparr>BlockId = i, BlockType = t, Text = None, Confidence = None, Page = None,
      Geometry = None, Relationships = [], RowIndex = None, ColumnIndex = None,
      RowSpan = None, ColumnSpan = None, EntityTypes = [], SelectionStatus = None\<rparr>"

definition word_block :: "string \<Rightarrow> string \<Rightarrow> rat \<Rightarrow> geometry \<Rightarrow> block" where
  "word_block i t c g = (empty_block i WORD)\<lparr>Text := Some t, Confidence := Some c, Geometry := Some g\<rparr>"



text \<open>A key with no \<^verbatim>\<open>VALUE\<close> relationship.\<close>

definition key_only :: block where
  "key_only =
     (empty_block ''k1'' KEY_VALUE_SET)\<lparr>Text := Some ''Date'', Confidence := Some 98,
        EntityTypes := [''KEY'']\<rparr>"

text \<open>Scenario B: a key linked to one value block.\<close>

definition scenario_b_key :: block where
  "scenario_b_key =
     (empty_block ''k1'' KEY_VALUE_SET)\<lparr>Text := Some ''Date'', Confidence := Some 98,
        EntityTypes := [''KEY''], Relationships := [\<lparr>Type = VALUE, Ids = [''v1'']\<rparr>]\<rparr>"

definition scenario_b_value :: block where
  "scenario_b_value =
     (empty_block ''v1'' KEY_VALUE_SET)\<lparr>Text := Some ''01/01/2024'', Confidence := Some 95,
        EntityTypes := [''VALUE'']\<rparr>"

definition scenario_b_map :: blocks_map where
  "scenario_b_map = blocks_map_of [scenario_b_key, scenario_b_value]"



text \<open>Scenario D: no table, three lines.\<close>

definition scenario_d_blocks :: "block list" where
  "scenario_d_blocks =
     [empty_block ''p1'' PAGE,
      (empty_block ''l1'' LINE)\<lparr>Text := Some ''Invoice'', Confidence := Some 99\<rparr>,
      (empty_block ''l2'' LINE)\<lparr>Text := Some ''Total due'', Confidence := Some 98\<rparr>,
      (empty_block ''l3'' LINE)\<lparr>Text := Some ''Thank you'', Confidence := Some 97\<rparr>]"

text \<open>
  Tables without word geometry, so that each is built structurally: one with a single
  cell, one with no cell at all.
\<close>

definition mk_cell :: "string \<Rightarrow> int \<Rightarrow> int \<Rightarrow> string \<Rightarrow> block" where
  "mk_cell i r c t =
     (empty_block i CELL)\<lparr>Text := Some t, Confidence := Some 90, RowIndex := Some r,
        ColumnIndex := Some c\<rparr>"

definition mk_table :: "string \<Rightarrow> int \<Rightarrow> string list \<Rightarrow> block" where
  "mk_table i p ids =
     (empty_block i TABLE)\<lparr>Page := Some p, Relationships := [\<lparr>Type = CHILD, Ids = ids\<rparr>]\<rparr>"

definition two_tables :: "block list" where
  "two_tables =
     [mk_table ''t1'' 1 [''c1''], mk_cell ''c1'' 1 1 ''Name'',
      mk_table ''t2'' 2 [''c2''], mk_cell ''c2'' 1 1 ''Age'']"

definition empty_then_table :: "block list" where
  "empty_then_table =
     [mk_table ''t1'' 1 [], mk_table ''t2'' 2 [''c2''], mk_cell ''c2'' 1 1 ''Age'']"

definition page_only :: "block list" where
  "page_only = [empty_block ''p1'' PAGE]"







text \<open>
  A table whose cell has a \<^verbatim>\<open>LINE\<close> child that lists itself as its child, followed
  by an ordinary table; and a table whose cell lacks \<^verbatim>\<open>RowIndex\<close>, followed by the
  same ordinary table.
\<close>

definition cyclic_then_table :: "block list" where
  "cyclic_then_table =
     [mk_table ''t1'' 1 [''c1''],
      (mk_cell ''c1'' 1 1 ''Name'')\<lparr>Relationships := [\<lparr>Type = CHILD, Ids = [''l1'']\<rparr>]\<rparr>,
      (empty_block ''l1'' LINE)\<lparr>Relationships := [\<lparr>Type = CHILD, Ids = [''l1'']\<rparr>]\<rparr>,
      mk_table ''t2'' 2 [''c2''], mk_cell ''c2'' 1 1 ''Age'']"

definition broken_then_table :: "block list" where
  "broken_then_table =
     [mk_table ''t1'' 1 [''c1''],
      (mk_cell ''c1'' 1 1 ''Name'')\<lparr>RowIndex := None\<rparr>,
      mk_table ''t2'' 2 [''c2''], mk_cell ''c2'' 1 1 ''Age'']"

text \<open>
  Tables with a cell that spans two columns: with two cells below it, alone, and
  after a cell that sits at the second position of its span.
\<close>

definition header_cells :: "block list" where
  "header_cells =
     [(mk_cell ''c1'' 1 1 ''Header'')\<lparr>ColumnSpan := Some 2\<rparr>,
      mk_cell ''c2'' 2 1 ''a'', mk_cell ''c3'' 2 2 ''b'']"

definition spanning_table :: "block list" where
  "spanning_table =
     [mk_table ''t1'' 1 [''c1''], (mk_cell ''c1'' 1 1 ''Header'')\<lparr>ColumnSpan := Some 2\<rparr>]"

definition overlapping_table :: "block list" where
  "overlapping_table =
     [mk_table ''t1'' 1 [''c1'', ''c2''], mk_cell ''c1'' 1 2 ''b'',
      (mk_cell ''c2'' 1 1 ''a'')\<lparr>ColumnSpan := Some 2\<rparr>]"

section \<open>Column assignment\<close>











section \<open>Key/Value Extractor: properties\<close>

lemma strip_Nil: "strip [] = []" by (simp add: strip_def)
lemma round2_0: "round2 0 = 0" by (simp add: round2_def round_half_even_def)

lemma map_results_mem:
  "map_results f xs = Inr ys \<Longrightarrow> x \<in> set xs \<Longrightarrow> \<exists>y. f x = Inr y \<and> y \<in> set ys"
  by (induction xs arbitrary: ys) (auto split: sum.splits)

lemma map_results_length: "map_results f xs = Inr ys \<Longrightarrow> length ys = length xs"
  by (induction xs arbitrary: ys) (auto split: sum.splits)

lemma find_None_no_value:
  "(\<forall>rel \<in> set rels. Type rel \<noteq> VALUE) \<Longrightarrow> find (\<lambda>rel. Type rel = VALUE) rels = None"
  by (simp add: find_None_iff)

lemma key_value_pair_no_value:
  assumes "\<forall>rel \<in> set (Relationships key_block). Type rel \<noteq> VALUE"
    and "get_text_and_confidence_from_block key_block bm = Inr (key_text, key_confidence)"
  shows "key_value_pair bm key_block =
     Inr (JObj [(''key'', JStr (strip key_text)),
                (''keyConfidence'', JNum (round2 key_confidence)),
                (''value'', JStr []),
                (''valueConfidence'', JNum 0),
                (''keyGeometry'', opt_geometry_json (Geometry key_block)),
                (''pageNumber'', opt_int_json (Page key_block))])"
  using assms by (simp add: key_value_pair_def find_None_no_value strip_Nil round2_0)

lemma structured_key_value_pairs:
  assumes "parse_blocks_to_structured_json ai frames blocks bm original_s3_key job_id = Inr out"
  shows "\<exists>ps. map_results (key_value_pair bm)
            (filter (\<lambda>kv. ''KEY'' \<in> set (EntityTypes kv))
               (filter (\<lambda>b. BlockType b = KEY_VALUE_SET) blocks)) = Inr ps \<and>
          json_list_field ''keyValuePairs'' out = ps"
  using assms
  by (auto simp: parse_blocks_to_structured_json_def Let_def json_list_field_def
      split: sum.splits)

text \<open>
  Claim C6 (as amended). A \<^verbatim>\<open>KEY\<close> block with no relationship of type
  \<^verbatim>\<open>VALUE\<close> is not omitted: whenever the record is produced, it holds a pair
  for that key with the key's resolved text and confidence, an empty value and value
  confidence 0.
\<close>

theorem key_without_value_is_emitted:
  assumes "key_block \<in> set blocks" and "BlockType key_block = KEY_VALUE_SET"
    and "''KEY'' \<in> set (EntityTypes key_block)"
    and "\<forall>rel \<in> set (Relationships key_block). Type rel \<noteq> VALUE"
    and "parse_blocks_to_structured_json ai frames blocks bm original_s3_key job_id = Inr out"
  shows "\<exists>key_text key_confidence.
     get_text_and_confidence_from_block key_block bm = Inr (key_text, key_confidence) \<and>
     JObj [(''key'', JStr (strip key_text)),
           (''keyConfidence'', JNum (round2 key_confidence)),
           (''value'', JStr []),
           (''valueConfidence'', JNum 0),
           (''keyGeometry'', opt_geometry_json (Geometry key_block)),
           (''pageNumber'', opt_int_json (Page key_block))]
       \<in> set (json_list_field ''keyValuePairs'' out)"
proof -
  let ?keys = "filter (\<lambda>kv. ''KEY'' \<in> set (EntityTypes kv))
                 (filter (\<lambda>b. BlockType b = KEY_VALUE_SET) blocks)"
  from structured_key_value_pairs [OF assms(5)]
  obtain ps where ps: "map_results (key_value_pair bm) ?keys = Inr ps"
    and out: "json_list_field ''keyValuePairs'' out = ps" by blast
  from assms(1-3) have "key_block \<in> set ?keys" by simp
  from map_results_mem [OF ps this]
  obtain p where p: "key_value_pair bm key_block = Inr p" "p \<in> set ps" by blast
  from p(1) obtain key_text key_confidence
    where r: "get_text_and_confidence_from_block key_block bm = Inr (key_text, key_confidence)"
    by (auto simp: key_value_pair_def split: sum.splits)
  from key_value_pair_no_value [OF assms(4) r] p out r show ?thesis by auto
qed


lemma collect_values_eq:
  "map_results (\<lambda>b. get_text_and_confidence_from_block b bm) (List.map_filter bm ids) = Inr vs \<Longrightarrow>
   collect_values bm ids (value_text, value_confidence) =
     Inr (value_text @ concat (map (\<lambda>(t, c). t @ '' '') vs),
          fold max (map snd vs) value_confidence)"
proof (induction ids arbitrary: value_text value_confidence vs)
  case Nil
  then show ?case by (simp add: List.map_filter_simps)
next
  case (Cons i ids)
  show ?case
  proof (cases "bm i")
    case None
    with Cons show ?thesis by (simp add: List.map_filter_simps)
  next
    case (Some value_block)
    with Cons.prems obtain v vs' where v: "get_text_and_confidence_from_block value_block bm = Inr v"
      and rest: "map_results (\<lambda>b. get_text_and_confidence_from_block b bm) (List.map_filter bm ids) = Inr vs'"
      and vs: "vs = v # vs'"
      by (auto simp: List.map_filter_simps split: sum.splits)
    obtain v_text v_conf where vp: "v = (v_text, v_conf)" by (cases v)
    from Cons.IH [OF rest] Some v show ?thesis by (simp add: vs vp max.commute)
  qed
qed

lemma fold_max_Max: "fold max xs (x::rat) = Max (insert x (set xs))"
  using Max.set_eq_fold [of x xs] by simp

text \<open>
  Claim C7 (as amended). The pair of a key takes its value from the first
  \<^verbatim>\<open>VALUE\<close> relationship only: the texts of the referenced blocks, each
  followed by a space, concatenated and then stripped (so the trailing space is gone),
  with the maximum of their confidences (and 0). In Scenario B the pair is
  key "Date", 98, value "01/01/2024", 95.
\<close>

theorem key_value_pair_first_value_max:
  assumes "get_text_and_confidence_from_block key_block bm = Inr (key_text, key_confidence)"
    and "find (\<lambda>rel. Type rel = VALUE) (Relationships key_block) = Some rel"
    and "map_results (\<lambda>b. get_text_and_confidence_from_block b bm) (List.map_filter bm (Ids rel))
           = Inr vs"
  shows "key_value_pair bm key_block =
     Inr (JObj [(''key'', JStr (strip key_text)),
                (''keyConfidence'', JNum (round2 key_confidence)),
                (''value'', JStr (strip (concat (map (\<lambda>(t, c). t @ '' '') vs)))),
                (''valueConfidence'', JNum (round2 (Max (insert 0 (snd ` set vs))))),
                (''keyGeometry'', opt_geometry_json (Geometry key_block)),
                (''pageNumber'', opt_int_json (Page key_block))])"
proof -
  from collect_values_eq [OF assms(3), of "[]" 0]
  have "collect_values bm (Ids rel) ([], 0) =
      Inr (concat (map (\<lambda>(t, c). t @ '' '') vs), Max (insert 0 (snd ` set vs)))"
    by (simp add: fold_max_Max)
  with assms(1,2) show ?thesis by (simp add: key_value_pair_def)
qed

lemma scenario_b_value_resolved:
  "get_text_and_confidence_from_block scenario_b_value scenario_b_map = Inr (''01/01/2024'', 95)"
  by (simp add: get_text_and_confidence_from_block_def scenario_b_value_def empty_block_def
      child_ids_def strip_def is_space_def get_confidence_def)

lemma scenario_b_key_resolved:
  "get_text_and_confidence_from_block scenario_b_key scenario_b_map = Inr (''Date'', 98)"
  by (simp add: get_text_and_confidence_from_block_def scenario_b_key_def empty_block_def
      child_ids_def strip_def is_space_def get_confidence_def)

lemma round2_int: "round2 (of_int n) = of_int n"
  by (simp add: round2_def round_half_even_def Let_def)

theorem key_value_pair_first_value_max_witness:
  "key_value_pair scenario_b_map scenario_b_key =
     Inr (JObj [(''key'', JStr ''Date''), (''keyConfidence'', JNum 98),
                (''value'', JStr ''01/01/2024''), (''valueConfidence'', JNum 95),
                (''keyGeometry'', JNull), (''pageNumber'', JNull)])"
proof -
  have first: "find (\<lambda>rel. Type rel = VALUE) (Relationships scenario_b_key)
      = Some \<lparr>Type = VALUE, Ids = [''v1'']\<rparr>"
    by (simp add: scenario_b_key_def empty_block_def)
  have vals: "map_results (\<lambda>b. get_text_and_confidence_from_block b scenario_b_map)
      (List.map_filter scenario_b_map (Ids \<lparr>Type = VALUE, Ids = [''v1'']\<rparr>))
        = Inr [(''01/01/2024'', 95)]"
    by (simp add: List.map_filter_simps scenario_b_map_def blocks_map_of_def
        scenario_b_key_def scenario_b_value_def empty_block_def
        scenario_b_value_resolved [unfolded scenario_b_map_def blocks_map_of_def
          scenario_b_key_def scenario_b_value_def empty_block_def, simplified])
  have r98: "round2 98 = 98" using round2_int [of 98] by simp
  have r95: "round2 95 = 95" using round2_int [of 95] by simp
  from key_value_pair_first_value_max [OF scenario_b_key_resolved first vals]
  show ?thesis
    by (simp add: strip_def is_space_def r98 r95 scenario_b_key_def empty_block_def
        opt_geometry_json_def opt_int_json_def)
qed

text \<open>Scenario B as the claim states it, with the trailing space, is not what is produced.\<close>

theorem scenario_b_trailing_space_counterexample:
  "key_value_pair scenario_b_map scenario_b_key \<noteq>
     Inr (JObj [(''key'', JStr ''Date''), (''keyConfidence'', JNum 98),
                (''value'', JStr ''01/01/2024 ''), (''valueConfidence'', JNum 95),
                (''keyGeometry'', JNull), (''pageNumber'', JNull)])"
  by code_simp

text \<open>The key without a value is in the output.\<close>

theorem key_without_value_counterexample:
  "(case parse_blocks_to_structured_json None 1000 [key_only] (blocks_map_of [key_only])
           ''doc.pdf'' ''job1'' of
      Inl e \<Rightarrow> []
    | Inr out \<Rightarrow> json_list_field ''keyValuePairs'' out) =
     [JObj [(''key'', JStr ''Date''), (''keyConfidence'', JNum 98),
            (''value'', JStr []), (''valueConfidence'', JNum 0),
            (''keyGeometry'', JNull), (''pageNumber'', JNull)]]"
  by code_simp


theorem key_without_value_is_emitted_witness:
  "JObj [(''key'', JStr ''Date''), (''keyConfidence'', JNum 98),
         (''value'', JStr []), (''valueConfidence'', JNum 0),
         (''keyGeometry'', JNull), (''pageNumber'', JNull)]
     \<in> set (json_list_field ''keyValuePairs''
               (JObj [(''originalS3Key'', JStr ''doc.pdf''),
                      (''processingJobId'', JStr ''job1''),
                      (''documentMetadata'', JObj [(''pageCount'', JInt 0)]),
                      (''tables'', JArr []),
                      (''keyValuePairs'',
                         JArr [JObj [(''key'', JStr ''Date''), (''keyConfidence'', JNum 98),
                                     (''value'', JStr []), (''valueConfidence'', JNum 0),
                                     (''keyGeometry'', JNull), (''pageNumber'', JNull)]]),
                      (''rawLines'', JArr [])]))"
proof -
  have out: "parse_blocks_to_structured_json None 1000 [key_only] (blocks_map_of [key_only])
        ''doc.pdf'' ''job1'' =
      Inr (JObj [(''originalS3Key'', JStr ''doc.pdf''),
                 (''processingJobId'', JStr ''job1''),
                 (''documentMetadata'', JObj [(''pageCount'', JInt 0)]),
                 (''tables'', JArr []),
                 (''keyValuePairs'',
                    JArr [JObj [(''key'', JStr ''Date''), (''keyConfidence'', JNum 98),
                                (''value'', JStr []), (''valueConfidence'', JNum 0),
                                (''keyGeometry'', JNull), (''pageNumber'', JNull)]]),
                 (''rawLines'', JArr [])])"
    by code_simp
  have k: "get_text_and_confidence_from_block key_only (blocks_map_of [key_only]) = Inr (''Date'', 98)"
    by code_simp
  have r98: "round2 98 = 98" using round2_int [of 98] by simp
  have "key_only \<in> set [key_only]" by simp
  moreover have "BlockType key_only = KEY_VALUE_SET" by (simp add: key_only_def empty_block_def)
  moreover have "''KEY'' \<in> set (EntityTypes key_only)" by (simp add: key_only_def empty_block_def)
  moreover have "\<forall>rel \<in> set (Relationships key_only). Type rel \<noteq> VALUE"
    by (simp add: key_only_def empty_block_def)
  ultimately show ?thesis
    using key_without_value_is_emitted [OF _ _ _ _ out] k
    by (simp add: r98 strip_def is_space_def key_only_def empty_block_def
        opt_geometry_json_def opt_int_json_def)
qed

section \<open>Text/Confidence Resolver: properties\<close>









section \<open>The tabular artifact: assembly\<close>

lemma line_rows_eq:
  "map_results (\<lambda>l. get_text_and_confidence_from_block l bm) ls = Inr rs \<Longrightarrow>
   line_rows bm ls acc = Inr (acc @ map (\<lambda>(t, c). [t]) rs)"
proof (induction ls arbitrary: acc rs)
  case Nil
  then show ?case by simp
next
  case (Cons l ls)
  from Cons.prems obtain r rs' where r: "get_text_and_confidence_from_block l bm = Inr r"
    and rest: "map_results (\<lambda>l. get_text_and_confidence_from_block l bm) ls = Inr rs'"
    and rs: "rs = r # rs'"
    by (auto split: sum.splits)
  obtain t c where rp: "r = (t, c)" by (cases r)
  from Cons.IH [OF rest] r show ?case by (simp add: rs rp)
qed

lemma csv_tables_append:
  "csv_tables frames bm (xs @ ys) acc =
     (case csv_tables frames bm xs acc of
        Inl e \<Rightarrow> Inl e
      | Inr out \<Rightarrow> csv_tables frames bm ys out)"
proof (induction xs arbitrary: acc)
  case Nil
  then show ?case by simp
next
  case (Cons x xs)
  obtain n t where x: "x = (n, t)" by (cases x)
  show ?case
  proof (cases "reconstruct_table_structure_spatially frames t bm")
    case (Some spatial_table)
    then show ?thesis by (simp add: x Let_def Cons.IH)
  next
    case None
    show ?thesis
    proof (cases "structural_rows t bm")
      case (Inl e)
      with None show ?thesis by (simp add: x Let_def)
    next
      case (Inr r)
      with None show ?thesis by (cases r) (simp_all add: x Let_def Cons.IH)
    qed
  qed
qed

lemma enumerate_snoc: "enumerate n (xs @ [x]) = enumerate n xs @ [(n + length xs, x)]"
  by (simp add: enumerate_append_eq)

text \<open>
  Claim C8 (as amended). With no \<^verbatim>\<open>TABLE\<close> block, the tabular artifact is the
  header row followed by one single-cell row per \<^verbatim>\<open>LINE\<close> block when there is
  at least one line, and empty when there is none. Otherwise the tables are handled
  in order: before a table, a blank row and the label row are appended exactly when
  some row has been emitted already (so never before the first table), then the rows
  of the table follow, none if the table is skipped.
\<close>

theorem csv_assembly:
  "(filter (\<lambda>b. BlockType b = TABLE) blocks = [] \<longrightarrow>
    map_results (\<lambda>l. get_text_and_confidence_from_block l bm)
      (filter (\<lambda>b. BlockType b = LINE) blocks) = Inr rs \<longrightarrow>
    parse_tables_to_csv_data frames blocks bm =
      Inr (if rs = [] then []
           else [''Detected Lines (No Table Structure Found)''] # map (\<lambda>(t, c). [t]) rs)) \<and>
   (filter (\<lambda>b. BlockType b = TABLE) blocks = ts @ [t] \<longrightarrow>
    csv_tables frames bm (enumerate 0 ts) [] = Inr out \<longrightarrow>
    parse_tables_to_csv_data frames blocks bm =
      (let out = (if out \<noteq> [] then out @ [[], [table_label (length ts) t]] else out)
       in case reconstruct_table_structure_spatially frames t bm of
            Some spatial_table \<Rightarrow> Inr (out @ spatial_csv_rows spatial_table)
          | None \<Rightarrow>
              (case structural_rows t bm of
                 Inl e \<Rightarrow> Inl e
               | Inr None \<Rightarrow> Inr out
               | Inr (Some current_table_rows) \<Rightarrow> Inr (out @ current_table_rows))))"
proof (intro conjI impI)
  assume no: "filter (\<lambda>b. BlockType b = TABLE) blocks = []"
    and rs: "map_results (\<lambda>l. get_text_and_confidence_from_block l bm)
      (filter (\<lambda>b. BlockType b = LINE) blocks) = Inr rs"
  have len: "length rs = length (filter (\<lambda>b. BlockType b = LINE) blocks)"
    using rs by (rule map_results_length)
  show "parse_tables_to_csv_data frames blocks bm =
      Inr (if rs = [] then []
           else [''Detected Lines (No Table Structure Found)''] # map (\<lambda>(t, c). [t]) rs)"
  proof (cases "rs = []")
    case True
    with len no show ?thesis by (simp add: parse_tables_to_csv_data_def)
  next
    case False
    with len have "filter (\<lambda>b. BlockType b = LINE) blocks \<noteq> []" by auto
    with no False line_rows_eq [OF rs, of "[[''Detected Lines (No Table Structure Found)'']]"]
    show ?thesis by (simp add: parse_tables_to_csv_data_def)
  qed
next
  assume tabs: "filter (\<lambda>b. BlockType b = TABLE) blocks = ts @ [t]"
    and out: "csv_tables frames bm (enumerate 0 ts) [] = Inr out"
  have "parse_tables_to_csv_data frames blocks bm =
      csv_tables frames bm (enumerate 0 ts @ [(length ts, t)]) []"
    by (simp add: parse_tables_to_csv_data_def tabs enumerate_snoc)
  also have "\<dots> = csv_tables frames bm [(length ts, t)] out"
    by (simp add: csv_tables_append out)
  finally show "parse_tables_to_csv_data frames blocks bm =
      (let out = (if out \<noteq> [] then out @ [[], [table_label (length ts) t]] else out)
       in case reconstruct_table_structure_spatially frames t bm of
            Some spatial_table \<Rightarrow> Inr (out @ spatial_csv_rows spatial_table)
          | None \<Rightarrow>
              (case structural_rows t bm of
                 Inl e \<Rightarrow> Inl e
               | Inr None \<Rightarrow> Inr out
               | Inr (Some current_table_rows) \<Rightarrow> Inr (out @ current_table_rows)))"
    by (simp add: Let_def split: option.splits sum.splits)
qed


theorem csv_assembly_witness:
  "parse_tables_to_csv_data 1000 scenario_d_blocks (blocks_map_of scenario_d_blocks) =
     Inr [[''Detected Lines (No Table Structure Found)''], [''Invoice''], [''Total due''],
          [''Thank you'']] \<and>
   parse_tables_to_csv_data 1000 two_tables (blocks_map_of two_tables) =
     Inr [[''Name''], [], [''--- Table 2 (Page 2) ---''], [''Age'']]"
proof -
  have no: "filter (\<lambda>b. BlockType b = TABLE) scenario_d_blocks = []"
    by code_simp
  have rs: "map_results (\<lambda>l. get_text_and_confidence_from_block l (blocks_map_of scenario_d_blocks))
      (filter (\<lambda>b. BlockType b = LINE) scenario_d_blocks)
        = Inr [(''Invoice'', 99), (''Total due'', 98), (''Thank you'', 97)]"
    by code_simp
  have lines: "parse_tables_to_csv_data 1000 scenario_d_blocks (blocks_map_of scenario_d_blocks) =
     Inr [[''Detected Lines (No Table Structure Found)''], [''Invoice''], [''Total due''],
          [''Thank you'']]"
    using csv_assembly [THEN conjunct1, rule_format, OF no rs, of 1000] by simp
  have tabs: "filter (\<lambda>b. BlockType b = TABLE) two_tables =
      [mk_table ''t1'' 1 [''c1'']] @ [mk_table ''t2'' 2 [''c2'']]"
    by code_simp
  have out: "csv_tables 1000 (blocks_map_of two_tables)
      (enumerate 0 [mk_table ''t1'' 1 [''c1'']]) [] = Inr [[''Name'']]"
    by code_simp
  have rhs: "(let out = (if [[''Name'']] \<noteq> []
                        then [[''Name'']] @
                             [[], [table_label (length [mk_table ''t1'' 1 [''c1'']])
                                     (mk_table ''t2'' 2 [''c2''])]]
                        else [[''Name'']])
       in case reconstruct_table_structure_spatially 1000 (mk_table ''t2'' 2 [''c2''])
                 (blocks_map_of two_tables) of
            Some spatial_table \<Rightarrow> Inr (out @ spatial_csv_rows spatial_table)
          | None \<Rightarrow>
              (case structural_rows (mk_table ''t2'' 2 [''c2'']) (blocks_map_of two_tables) of
                 Inl e \<Rightarrow> Inl e
               | Inr None \<Rightarrow> Inr out
               | Inr (Some current_table_rows) \<Rightarrow> Inr (out @ current_table_rows)))
      = Inr [[''Name''], [], [''--- Table 2 (Page 2) ---''], [''Age'']]"
    by code_simp
  have tables: "parse_tables_to_csv_data 1000 two_tables (blocks_map_of two_tables) =
     Inr [[''Name''], [], [''--- Table 2 (Page 2) ---''], [''Age'']]"
    using csv_assembly [THEN conjunct2, rule_format, OF tabs out] rhs by (rule trans)
  from lines tables show ?thesis by (rule conjI)
qed

text \<open>
  No table and no line: no header row. A first table that is skipped: the second
  table, although not the first, gets no separator and no label.
\<close>

theorem csv_assembly_counterexample:
  "parse_tables_to_csv_data 1000 page_only (blocks_map_of page_only) = Inr [] \<and>
   parse_tables_to_csv_data 1000 empty_then_table (blocks_map_of empty_then_table)
     = Inr [[''Age'']]"
  by code_simp

section \<open>The structured record: fields and rounding\<close>






















section \<open>Row lengths of a table\<close>

lemma grid_rows_shape:
  "length (grid_rows m max_row max_col) = nat max_row \<and>
   (\<forall>r \<in> set (grid_rows m max_row max_col). length r = nat max_col)"
  by (auto simp: grid_rows_def)






section \<open>Exceptions while reconstructing a table\<close>

lemma json_tables_append:
  "json_tables frames bm (xs @ ys) tables =
     (case json_tables frames bm xs tables of
        Inl e \<Rightarrow> Inl e
      | Inr out \<Rightarrow> json_tables frames bm ys out)"
proof (induction xs arbitrary: tables)
  case Nil
  then show ?case by simp
next
  case (Cons tb xs)
  show ?case
  proof (cases "reconstruct_table_structure_spatially frames tb bm")
    case (Some spatial_table)
    then show ?thesis by (simp add: Cons.IH)
  next
    case None
    show ?thesis
    proof (cases "structural_table_json tb bm")
      case (Inl e)
      with None show ?thesis by simp
    next
      case (Inr r)
      with None show ?thesis by (cases r) (simp_all add: Cons.IH)
    qed
  qed
qed

text \<open>
  Claim C5 (as amended). An exception raised inside the spatial reconstruction of a
  table is caught there and counts as a failed reconstruction: the table is then built
  structurally, or skipped when the structural builder has nothing to give, and in
  both artifacts the tables after it are processed as they would be otherwise. (The
  statement is about a structural fallback that returns; what happens when the
  fallback itself raises is not part of it.)
\<close>

theorem spatial_exception_is_contained:
  assumes "spatial_try frames tb bm = Inl e"
    and "structural_rows tb bm = Inr r"
    and "structural_table_json tb bm = Inr j"
  shows "reconstruct_table_structure_spatially frames tb bm = None \<and>
     csv_tables frames bm (xs @ (n, tb) # ys) all_csv_rows =
       (case csv_tables frames bm xs all_csv_rows of
          Inl e' \<Rightarrow> Inl e'
        | Inr out \<Rightarrow>
            csv_tables frames bm ys
              ((if out \<noteq> [] then out @ [[], [table_label n tb]] else out)
               @ (case r of None \<Rightarrow> [] | Some current_table_rows \<Rightarrow> current_table_rows))) \<and>
     json_tables frames bm (tbs @ tb # tbs') tables =
       (case json_tables frames bm tbs tables of
          Inl e' \<Rightarrow> Inl e'
        | Inr out \<Rightarrow>
            json_tables frames bm tbs'
              (out @ (case j of None \<Rightarrow> [] | Some table_data \<Rightarrow> [table_data])))"
proof -
  have caught: "reconstruct_table_structure_spatially frames tb bm = None"
    using assms(1) by (simp add: reconstruct_table_structure_spatially_def)
  have csv: "\<And>out. csv_tables frames bm ((n, tb) # ys) out =
      csv_tables frames bm ys
        ((if out \<noteq> [] then out @ [[], [table_label n tb]] else out)
         @ (case r of None \<Rightarrow> [] | Some current_table_rows \<Rightarrow> current_table_rows))"
    using caught assms(2) by (cases r) (simp_all add: Let_def)
  have js: "\<And>out. json_tables frames bm (tb # tbs') out =
      json_tables frames bm tbs' (out @ (case j of None \<Rightarrow> [] | Some table_data \<Rightarrow> [table_data]))"
    using caught assms(3) by (cases j) simp_all
  have c: "csv_tables frames bm (xs @ (n, tb) # ys) all_csv_rows =
       (case csv_tables frames bm xs all_csv_rows of
          Inl e' \<Rightarrow> Inl e'
        | Inr out \<Rightarrow>
            csv_tables frames bm ys
              ((if out \<noteq> [] then out @ [[], [table_label n tb]] else out)
               @ (case r of None \<Rightarrow> [] | Some current_table_rows \<Rightarrow> current_table_rows)))"
    by (simp only: csv_tables_append csv)
  have t: "json_tables frames bm (tbs @ tb # tbs') tables =
       (case json_tables frames bm tbs tables of
          Inl e' \<Rightarrow> Inl e'
        | Inr out \<Rightarrow>
            json_tables frames bm tbs'
              (out @ (case j of None \<Rightarrow> [] | Some table_data \<Rightarrow> [table_data])))"
    by (simp only: json_tables_append js)
  from caught c t show ?thesis by blast
qed


theorem spatial_exception_is_contained_witness:
  "spatial_try 1000 (mk_table ''t1'' 1 [''c1'']) (blocks_map_of cyclic_then_table)
     = Inl RecursionError \<and>
   reconstruct_table_structure_spatially 1000 (mk_table ''t1'' 1 [''c1''])
     (blocks_map_of cyclic_then_table) = None \<and>
   csv_tables 1000 (blocks_map_of cyclic_then_table)
     [(0, mk_table ''t1'' 1 [''c1'']), (1, mk_table ''t2'' 2 [''c2''])] []
     = Inr [[''Name''], [], [''--- Table 2 (Page 2) ---''], [''Age'']] \<and>
   (case json_tables 1000 (blocks_map_of cyclic_then_table)
           [mk_table ''t1'' 1 [''c1''], mk_table ''t2'' 2 [''c2'']] [] of
      Inl e \<Rightarrow> []
    | Inr ts \<Rightarrow> map (\<lambda>t. map_of (json_fields t) ''tableId'') ts)
     = [Some (JStr ''t1''), Some (JStr ''t2'')]"
proof -
  let ?bm = "blocks_map_of cyclic_then_table"
  let ?t1 = "mk_table ''t1'' 1 [''c1'']"
  let ?t2 = "mk_table ''t2'' 2 [''c2'']"
  let ?j1 = "JObj [(''tableId'', JStr ''t1''), (''pageNumber'', JInt 1),
                   (''confidence'', JNull), (''rowCount'', JInt 1), (''columnCount'', JInt 1),
                   (''spatiallyReconstructed'', JBool False),
                   (''rows'',
                    JArr [JObj [(''rowIndex'', JInt 1),
                                (''cells'',
                                 JArr [JObj [(''cellId'', JStr ''c1''), (''rowIndex'', JInt 1),
                                             (''columnIndex'', JInt 1), (''rowSpan'', JInt 1),
                                             (''columnSpan'', JInt 1), (''text'', JStr ''Name''),
                                             (''confidence'', JNum 90), (''geometry'', JNull),
                                             (''spatiallyReconstructed'', JBool False)]])]])]"
  have e: "spatial_try 1000 ?t1 ?bm = Inl RecursionError" by code_simp
  have r: "structural_rows ?t1 ?bm = Inr (Some [[''Name'']])" by code_simp
  have j: "structural_table_json ?t1 ?bm = Inr (Some ?j1)" by code_simp
  note inst = spatial_exception_is_contained [OF e r j,
      of "[]" 0 "[(1, ?t2)]" "[]" "[]" "[?t2]" "[]"]
  from inst have caught: "reconstruct_table_structure_spatially 1000 ?t1 ?bm = None" by blast
  from inst have "csv_tables 1000 ?bm [(0, ?t1), (1, ?t2)] []
      = csv_tables 1000 ?bm [(1, ?t2)] [[''Name'']]"
    by (simp del: csv_tables.simps(2) json_tables.simps(2))
  also have "\<dots> = Inr [[''Name''], [], [''--- Table 2 (Page 2) ---''], [''Age'']]"
    by code_simp
  finally have csv: "csv_tables 1000 ?bm [(0, ?t1), (1, ?t2)] []
      = Inr [[''Name''], [], [''--- Table 2 (Page 2) ---''], [''Age'']]" .
  from inst have "json_tables 1000 ?bm [?t1, ?t2] [] = json_tables 1000 ?bm [?t2] [?j1]"
    by (simp del: csv_tables.simps(2) json_tables.simps(2))
  moreover have "(case json_tables 1000 ?bm [?t2] [?j1] of
      Inl e \<Rightarrow> []
    | Inr ts \<Rightarrow> map (\<lambda>t. map_of (json_fields t) ''tableId'') ts)
     = [Some (JStr ''t1''), Some (JStr ''t2'')]"
    by code_simp
  ultimately have js: "(case json_tables 1000 ?bm [?t1, ?t2] [] of
      Inl e \<Rightarrow> []
    | Inr ts \<Rightarrow> map (\<lambda>t. map_of (json_fields t) ''tableId'') ts)
     = [Some (JStr ''t1''), Some (JStr ''t2'')]"
    by (simp only:)
  from e caught csv js show ?thesis by (intro conjI)
qed

text \<open>
  A cell without \<^verbatim>\<open>RowIndex\<close> makes the structural fallback raise; nothing catches
  the exception, and neither artifact is produced although a sound table follows.
\<close>

theorem structural_exception_counterexample:
  "parse_tables_to_csv_data 1000 broken_then_table (blocks_map_of broken_then_table)
     = Inl (KeyError ''RowIndex'') \<and>
   parse_blocks_to_structured_json None 1000 broken_then_table (blocks_map_of broken_then_table)
     ''doc.pdf'' ''job1'' = Inl (KeyError ''RowIndex'')"
  by code_simp

section \<open>Structural Table Builder: the grid\<close>

lemma write_position_text_at:
  "text_at (write_position cell_text row_idx col_idx off m) p =
     (if off = (0, 0) \<and> p = (row_idx, col_idx) then cell_text else text_at m p)"
proof -
  obtain r_offset c_offset where off: "off = (r_offset, c_offset)" by (cases off)
  show ?thesis
    by (auto simp: off write_position_def text_at_def Let_def update_conv')
qed

lemma fold_write_position_text_at:
  "text_at (fold (write_position cell_text row_idx col_idx) offs m) p =
     (if (0, 0) \<in> set offs \<and> p = (row_idx, col_idx) then cell_text else text_at m p)"
proof (induction offs arbitrary: m)
  case Nil
  then show ?case by simp
next
  case (Cons off offs)
  show ?case by (simp add: Cons.IH write_position_text_at)
qed

lemma origin_in_product:
  "(0, 0) \<in> set (List.product [0..<nat row_span] [0..<nat col_span]) \<longleftrightarrow>
     0 < row_span \<and> 0 < col_span"
  by auto

lemma find_append:
  "find P (xs @ ys) = (case find P xs of Some x \<Rightarrow> Some x | None \<Rightarrow> find P ys)"
  by (induction xs) auto

lemma fill_cells_Cons_Inr:
  assumes "fill_cells bm (c # cs) (m, max_row, max_col) = Inr st"
  shows "\<exists>row_idx col_idx cell_text conf.
     RowIndex c = Some row_idx \<and> ColumnIndex c = Some col_idx \<and>
     get_text_and_confidence_from_block c bm = Inr (cell_text, conf) \<and>
     fill_cells bm cs
       (fold (write_position cell_text row_idx col_idx)
          (List.product [0..<nat (get_span (RowSpan c))] [0..<nat (get_span (ColumnSpan c))]) m,
        max max_row (row_idx + get_span (RowSpan c) - 1),
        max max_col (col_idx + get_span (ColumnSpan c) - 1)) = Inr st"
proof (cases "RowIndex c")
  case None
  with assms show ?thesis by simp
next
  case ri: (Some row_idx)
  show ?thesis
  proof (cases "ColumnIndex c")
    case None
    with assms ri show ?thesis by simp
  next
    case ci: (Some col_idx)
    show ?thesis
    proof (cases "get_text_and_confidence_from_block c bm")
      case (Inl e)
      with assms ri ci show ?thesis by (simp add: Let_def)
    next
      case (Inr tc)
      obtain cell_text conf where tc: "tc = (cell_text, conf)" by (cases tc)
      from assms ri ci Inr show ?thesis by (simp add: Let_def tc)
    qed
  qed
qed

lemma fill_cells_text_at:
  assumes "fill_cells bm cs (m, max_row, max_col) = Inr (m', max_row', max_col')"
  shows "text_at m' p =
     (case find (top_left_at p) (rev cs) of
        Some c \<Rightarrow> resolved_text bm c
      | None \<Rightarrow> text_at m p)"
  using assms
proof (induction cs arbitrary: m max_row max_col)
  case Nil
  then show ?case by simp
next
  case (Cons c cs)
  from fill_cells_Cons_Inr [OF Cons.prems] obtain row_idx col_idx cell_text conf where
    ri: "RowIndex c = Some row_idx" and ci: "ColumnIndex c = Some col_idx"
    and r: "get_text_and_confidence_from_block c bm = Inr (cell_text, conf)"
    and rest: "fill_cells bm cs
       (fold (write_position cell_text row_idx col_idx)
          (List.product [0..<nat (get_span (RowSpan c))] [0..<nat (get_span (ColumnSpan c))]) m,
        max max_row (row_idx + get_span (RowSpan c) - 1),
        max max_col (col_idx + get_span (ColumnSpan c) - 1)) = Inr (m', max_row', max_col')"
    by blast
  let ?m = "fold (write_position cell_text row_idx col_idx)
      (List.product [0..<nat (get_span (RowSpan c))] [0..<nat (get_span (ColumnSpan c))]) m"
  from Cons.IH [OF rest]
  have IH: "text_at m' p =
     (case find (top_left_at p) (rev cs) of Some c \<Rightarrow> resolved_text bm c | None \<Rightarrow> text_at ?m p)" .
  have here: "text_at ?m p = (if top_left_at p c then cell_text else text_at m p)"
    unfolding fold_write_position_text_at origin_in_product
    by (cases p) (auto simp: top_left_at_def ri ci)
  have tx: "resolved_text bm c = cell_text" by (simp add: resolved_text_def r)
  show ?case
    by (simp add: IH here tx find_append split: option.splits)
qed

lemma fill_cells_max:
  assumes "fill_cells bm cs (m, max_row, max_col) = Inr (m', max_row', max_col')"
  shows "max_row' = Max (insert max_row (last_row ` set cs)) \<and>
     max_col' = Max (insert max_col (last_col ` set cs))"
  using assms
proof (induction cs arbitrary: m max_row max_col)
  case Nil
  then show ?case by simp
next
  case (Cons c cs)
  from fill_cells_Cons_Inr [OF Cons.prems] obtain row_idx col_idx cell_text conf where
    ri: "RowIndex c = Some row_idx" and ci: "ColumnIndex c = Some col_idx"
    and r: "get_text_and_confidence_from_block c bm = Inr (cell_text, conf)"
    and rest: "fill_cells bm cs
       (fold (write_position cell_text row_idx col_idx)
          (List.product [0..<nat (get_span (RowSpan c))] [0..<nat (get_span (ColumnSpan c))]) m,
        max max_row (row_idx + get_span (RowSpan c) - 1),
        max max_col (col_idx + get_span (ColumnSpan c) - 1)) = Inr (m', max_row', max_col')"
    by blast
  let ?m = "fold (write_position cell_text row_idx col_idx)
      (List.product [0..<nat (get_span (RowSpan c))] [0..<nat (get_span (ColumnSpan c))]) m"
  from Cons.IH [OF rest]
  have IH: "max_row' = Max (insert (max max_row (last_row c)) (last_row ` set cs))"
    "max_col' = Max (insert (max max_col (last_col c)) (last_col ` set cs))"
    by (simp_all add: last_row_def last_col_def ri ci)
  have a: "Max (insert (max max_row (last_row c)) (last_row ` set cs))
      = Max (insert max_row (last_row ` set (c # cs)))"
    by (cases "set cs = {}") (simp_all add: max.assoc max.commute max.left_commute)
  have b: "Max (insert (max max_col (last_col c)) (last_col ` set cs))
      = Max (insert max_col (last_col ` set (c # cs)))"
    by (cases "set cs = {}") (simp_all add: max.assoc max.commute max.left_commute)
  from IH a b show ?case by simp
qed

lemma grid_rows_nth:
  assumes "1 \<le> r" "r \<le> max_row" "1 \<le> k" "k \<le> max_col"
  shows "grid_rows m max_row max_col ! nat (r - 1) ! nat (k - 1) = text_at m (r, k)"
proof -
  have r: "nat (r - 1) < length [1..max_row]" "[1..max_row] ! nat (r - 1) = r"
    using assms(1,2) by (simp_all add: nth_upto)
  have k: "nat (k - 1) < length [1..max_col]" "[1..max_col] ! nat (k - 1) = k"
    using assms(3,4) by (simp_all add: nth_upto)
  show ?thesis
    unfolding grid_rows_def text_at_def using r k by (simp del: length_upto)
qed

text \<open>
  Claim C2 (as amended). When the structural builder of the tabular artifact has gone
  through the cell blocks, the grid has exactly as many rows and columns as the
  largest row and column any span reaches, and each position of the grid holds the
  resolved text of the last cell block whose span starts there, and the empty text
  if there is none, whether a span covers the position or not.
\<close>

theorem structural_grid_contents:
  assumes "fill_cells bm cell_blocks ([], 0, 0) = Inr (table_cells_map, max_row, max_col)"
  shows "max_row = Max (insert 0 (last_row ` set cell_blocks)) \<and>
     max_col = Max (insert 0 (last_col ` set cell_blocks)) \<and>
     length (grid_rows table_cells_map max_row max_col) = nat max_row \<and>
     (\<forall>row \<in> set (grid_rows table_cells_map max_row max_col). length row = nat max_col) \<and>
     (\<forall>r k. 1 \<le> r \<and> r \<le> max_row \<and> 1 \<le> k \<and> k \<le> max_col \<longrightarrow>
        grid_rows table_cells_map max_row max_col ! nat (r - 1) ! nat (k - 1) =
          (case find (top_left_at (r, k)) (rev cell_blocks) of
             Some c \<Rightarrow> resolved_text bm c
           | None \<Rightarrow> []))"
proof -
  from fill_cells_max [OF assms]
  have mx: "max_row = Max (insert 0 (last_row ` set cell_blocks))"
    "max_col = Max (insert 0 (last_col ` set cell_blocks))" by simp_all
  have e: "\<And>p. text_at [] p = []" by (simp add: text_at_def)
  have "\<And>p. text_at table_cells_map p =
     (case find (top_left_at p) (rev cell_blocks) of
        Some c \<Rightarrow> resolved_text bm c | None \<Rightarrow> [])"
    using fill_cells_text_at [OF assms] by (simp add: e split: option.splits)
  then have cells: "\<forall>r k. 1 \<le> r \<and> r \<le> max_row \<and> 1 \<le> k \<and> k \<le> max_col \<longrightarrow>
        grid_rows table_cells_map max_row max_col ! nat (r - 1) ! nat (k - 1) =
          (case find (top_left_at (r, k)) (rev cell_blocks) of
             Some c \<Rightarrow> resolved_text bm c
           | None \<Rightarrow> [])"
    by (simp add: grid_rows_nth)
  from mx grid_rows_shape [of table_cells_map max_row max_col] cells show ?thesis by blast
qed


theorem structural_grid_contents_witness:
  "fill_cells (blocks_map_of header_cells) header_cells ([], 0, 0) =
     Inr ([((1, 1), ''Header''), ((1, 2), []), ((2, 1), ''a''), ((2, 2), ''b'')], 2, 2) \<and>
   grid_rows [((1, 1), ''Header''), ((1, 2), []), ((2, 1), ''a''), ((2, 2), ''b'')] 2 2
     = [[''Header'', []], [''a'', ''b'']] \<and>
   grid_rows [((1, 1), ''Header''), ((1, 2), []), ((2, 1), ''a''), ((2, 2), ''b'')] 2 2
     ! nat (1 - 1) ! nat (2 - 1) = [] \<and>
   grid_rows [((1, 1), ''Header''), ((1, 2), []), ((2, 1), ''a''), ((2, 2), ''b'')] 2 2
     ! nat (2 - 1) ! nat (2 - 1) = ''b''"
proof -
  let ?m = "[((1, 1), ''Header''), ((1, 2), []), ((2, 1), ''a''), ((2, 2), ''b'')]"
  have f: "fill_cells (blocks_map_of header_cells) header_cells ([], 0, 0) = Inr (?m, 2, 2)"
    by code_simp
  have g: "grid_rows ?m 2 2 = [[''Header'', []], [''a'', ''b'']]"
    by code_simp
  have covered: "(case find (top_left_at (1, 2)) (rev header_cells) of
      Some c \<Rightarrow> resolved_text (blocks_map_of header_cells) c | None \<Rightarrow> []) = []"
    by code_simp
  have own: "(case find (top_left_at (2, 2)) (rev header_cells) of
      Some c \<Rightarrow> resolved_text (blocks_map_of header_cells) c | None \<Rightarrow> []) = ''b''"
    by code_simp
  from structural_grid_contents [OF f]
  have cells: "\<And>r k. 1 \<le> r \<and> r \<le> 2 \<and> 1 \<le> k \<and> k \<le> 2 \<Longrightarrow>
      grid_rows ?m 2 2 ! nat (r - 1) ! nat (k - 1) =
        (case find (top_left_at (r, k)) (rev header_cells) of
           Some c \<Rightarrow> resolved_text (blocks_map_of header_cells) c | None \<Rightarrow> [])"
    by blast
  have c12: "grid_rows ?m 2 2 ! nat (1 - 1) ! nat (2 - 1) = []"
    using cells [of 1 2] covered by simp
  have c22: "grid_rows ?m 2 2 ! nat (2 - 1) ! nat (2 - 1) = ''b''"
    using cells [of 2 2] own by simp
  from f g c12 c22 show ?thesis by (intro conjI)
qed

text \<open>
  In the structured record a cell that spans two columns gives a row with one cell
  under \<^verbatim>\<open>columnCount\<close> 2; and in the tabular artifact a position covered by a span
  keeps the text an earlier cell wrote there.
\<close>

theorem structural_grid_contents_counterexample:
  "(case parse_blocks_to_structured_json None 1000 spanning_table (blocks_map_of spanning_table)
           ''doc.pdf'' ''job1'' of
      Inl e \<Rightarrow> []
    | Inr out \<Rightarrow>
        map (\<lambda>t. (json_int_field ''columnCount'' t,
                   map (\<lambda>row. length (json_list_field ''cells'' row))
                     (json_list_field ''rows'' t)))
          (json_list_field ''tables'' out)) = [(2, [1])] \<and>
   parse_tables_to_csv_data 1000 overlapping_table (blocks_map_of overlapping_table)
     = Inr [[''a'', ''b'']]"
  by code_simp

section \<open>Spatial reconstruction of a clean 2 by 2 grid\<close>




















end
